theory Spec2Isabelle
  imports Complex_Main "HOL-Library.Log_Nat"
begin

section \<open>Python exceptions\<close>

text \<open>
  The exceptions the two modules can raise, as values. A call that raises returns
  \<open>Inl e\<close>; a call that returns \<open>v\<close> gives \<open>Inr v\<close>. The spec calls
  \<open>NotImplementedError\<close> "NotSupportedError" and the \<open>AssertionError\<close> of the
  constructor of the OU strategy "InvalidSpaceError".
\<close>

datatype pyerror =
    NotImplementedError
  | AssertionError
  | TypeError
  | ValueError
  | AttributeError
  | IndexError
  | RuntimeError
  | OverflowError

section \<open>IEEE 754 binary64\<close>

text \<open>
  A float64 is a finite dyadic rational, an infinity or NaN. The two zeros are one
  value here: the modules divide nowhere and take no sign, so nothing can tell them apart
  but the printed sign of a zero. An arithmetic operation on finite operands computes the
  exact result, rounds it to 53 significant bits (least exponent \<open>-1074\<close>), ties to
  even, and overflows to an infinity when the rounded magnitude reaches \<open>2 ^ 1024\<close>.
\<close>

definition round_half_even :: "rat \<Rightarrow> int" where
  "round_half_even r =
     (let f = \<lfloor>r\<rfloor>; d = r - of_int f
      in if d < 1 / 2 then f
         else if 1 / 2 < d then f + 1
         else if even f then f else f + 1)"

definition ilog2 :: "rat \<Rightarrow> int" where
  \<comment> \<open>\<open>\<lfloor>log\<^sub>2 x\<rfloor>\<close> for \<open>0 < x\<close>, from the bit lengths of numerator and denominator\<close>
  "ilog2 x =
     (case quotient_of x of (p, q) \<Rightarrow>
        let e = bitlen p - bitlen q
        in if 2 powi e \<le> x then e else e - 1)"

definition round_f64 :: "rat \<Rightarrow> rat" where
  \<comment> \<open>rounding to 53 bits, with no upper bound on the exponent\<close>
  "round_f64 x =
     (if x = 0 then 0
      else let q = max (ilog2 \<bar>x\<bar> - 52) (- 1074)
           in of_int (round_half_even (x / 2 powi q)) * 2 powi q)"

datatype f64 = Fin rat | PInf | NInf | NaN

definition f64_of_rat :: "rat \<Rightarrow> f64" where
  \<comment> \<open>the rounded magnitude reaches \<open>2 ^ 1024\<close> when its binary logarithm reaches 1024\<close>
  "f64_of_rat x =
     (let r = round_f64 x
      in if r = 0 \<or> ilog2 \<bar>r\<bar> < 1024 then Fin r else if 0 < r then PInf else NInf)"

definition f64_valid :: "f64 \<Rightarrow> bool" where
  \<comment> \<open>the terms that stand for a float64: a finite one is a fixed point of the rounding\<close>
  "f64_valid v = (case v of Fin r \<Rightarrow> f64_of_rat r = Fin r | _ \<Rightarrow> True)"

definition f64_neg :: "f64 \<Rightarrow> f64" where
  "f64_neg v = (case v of Fin a \<Rightarrow> Fin (- a) | PInf \<Rightarrow> NInf | NInf \<Rightarrow> PInf | NaN \<Rightarrow> NaN)"

fun f64_add :: "f64 \<Rightarrow> f64 \<Rightarrow> f64" where
  "f64_add (Fin a) (Fin b) = f64_of_rat (a + b)"
| "f64_add NaN y = NaN"
| "f64_add x NaN = NaN"
| "f64_add PInf NInf = NaN"
| "f64_add NInf PInf = NaN"
| "f64_add PInf y = PInf"
| "f64_add x PInf = PInf"
| "f64_add NInf y = NInf"
| "f64_add x NInf = NInf"

definition f64_sub :: "f64 \<Rightarrow> f64 \<Rightarrow> f64" where
  "f64_sub x y = f64_add x (f64_neg y)"

definition inf_of_sign :: "rat \<Rightarrow> f64" where
  \<comment> \<open>a nonzero finite factor times \<open>+inf\<close>; zero times an infinity is NaN\<close>
  "inf_of_sign a = (if a = 0 then NaN else if 0 < a then PInf else NInf)"

fun f64_mul :: "f64 \<Rightarrow> f64 \<Rightarrow> f64" where
  "f64_mul (Fin a) (Fin b) = f64_of_rat (a * b)"
| "f64_mul NaN y = NaN"
| "f64_mul x NaN = NaN"
| "f64_mul (Fin a) PInf = inf_of_sign a"
| "f64_mul (Fin a) NInf = inf_of_sign (- a)"
| "f64_mul PInf (Fin b) = inf_of_sign b"
| "f64_mul NInf (Fin b) = inf_of_sign (- b)"
| "f64_mul PInf PInf = PInf"
| "f64_mul PInf NInf = NInf"
| "f64_mul NInf PInf = NInf"
| "f64_mul NInf NInf = PInf"

text \<open>Every comparison with NaN is false.\<close>

fun f64_le :: "f64 \<Rightarrow> f64 \<Rightarrow> bool" where
  "f64_le (Fin a) (Fin b) = (a \<le> b)"
| "f64_le NaN y = False"
| "f64_le x NaN = False"
| "f64_le NInf y = True"
| "f64_le x PInf = True"
| "f64_le x NInf = False"
| "f64_le PInf y = False"

definition f64_maximum :: "f64 \<Rightarrow> f64 \<Rightarrow> f64" where
  \<comment> \<open>\<open>np.maximum\<close> on two entries: a NaN on either side is returned\<close>
  "f64_maximum x y = (if f64_le y x \<or> x = NaN then x else y)"

definition f64_minimum :: "f64 \<Rightarrow> f64 \<Rightarrow> f64" where
  "f64_minimum x y = (if f64_le x y \<or> x = NaN then x else y)"

section \<open>Python numbers and NumPy arrays\<close>

text \<open>
  The parameters \<open>mu\<close>, \<open>theta\<close> and \<open>sigma\<close> are Python numbers, an \<open>int\<close> of any
  size or a \<open>float\<close>. Next to an array of float64 NumPy converts the number to float64
  before it computes: an \<open>int\<close> is rounded to the nearest float64, and one beyond the
  range of float64 raises \<open>OverflowError\<close>.
\<close>

datatype pynum = PyInt int | PyFloat f64

definition pynum_valid :: "pynum \<Rightarrow> bool" where
  "pynum_valid c = (case c of PyInt k \<Rightarrow> True | PyFloat v \<Rightarrow> f64_valid v)"

definition as_float64 :: "pynum \<Rightarrow> pyerror + f64" where
  "as_float64 c =
     (case c of
        PyFloat v \<Rightarrow> Inr v
      | PyInt k \<Rightarrow>
          (case f64_of_rat (of_int k) of Fin r \<Rightarrow> Inr (Fin r) | _ \<Rightarrow> Inl OverflowError))"

text \<open>
  A one-dimensional \<open>ndarray\<close> of dtype float64 is an \<open>f64 list\<close>. Broadcasting of two
  one-dimensional arrays: equal lengths pair up, an array of length one is stretched,
  anything else raises.
\<close>

definition broadcast1 ::
  "pyerror \<Rightarrow> ('a \<Rightarrow> 'b \<Rightarrow> 'c) \<Rightarrow> 'a list \<Rightarrow> 'b list \<Rightarrow> pyerror + 'c list" where
  "broadcast1 err f xs ys =
     (if length xs = length ys then Inr (map2 f xs ys)
      else case xs of [x] \<Rightarrow> Inr (map (f x) ys)
      | _ \<Rightarrow> (case ys of [y] \<Rightarrow> Inr (map (\<lambda>x. f x y) xs) | _ \<Rightarrow> Inl err))"

definition np_ones :: "nat \<Rightarrow> f64 list" where
  "np_ones n = replicate n (Fin 1)"

definition np_mul_scalar :: "f64 list \<Rightarrow> pynum \<Rightarrow> pyerror + f64 list" where
  \<comment> \<open>\<open>xs * c\<close>\<close>
  "np_mul_scalar xs c =
     (case as_float64 c of Inl e \<Rightarrow> Inl e | Inr v \<Rightarrow> Inr (map (\<lambda>x. f64_mul x v) xs))"

definition np_scalar_mul :: "pynum \<Rightarrow> f64 list \<Rightarrow> pyerror + f64 list" where
  \<comment> \<open>\<open>c * xs\<close>\<close>
  "np_scalar_mul c xs =
     (case as_float64 c of Inl e \<Rightarrow> Inl e | Inr v \<Rightarrow> Inr (map (f64_mul v) xs))"

definition np_scalar_sub :: "pynum \<Rightarrow> f64 list \<Rightarrow> pyerror + f64 list" where
  \<comment> \<open>\<open>c - xs\<close>\<close>
  "np_scalar_sub c xs =
     (case as_float64 c of Inl e \<Rightarrow> Inl e | Inr v \<Rightarrow> Inr (map (f64_sub v) xs))"

definition np_add :: "f64 list \<Rightarrow> f64 list \<Rightarrow> pyerror + f64 list" where
  "np_add xs ys = broadcast1 ValueError f64_add xs ys"

definition np_clip :: "f64 list \<Rightarrow> f64 list \<Rightarrow> f64 list \<Rightarrow> pyerror + f64 list" where
  \<comment> \<open>\<open>np.clip(a, a_min, a_max)\<close> is \<open>np.minimum(a_max, np.maximum(a, a_min))\<close>\<close>
  "np_clip a a_min a_max =
     (case broadcast1 ValueError f64_maximum a a_min of
        Inl e \<Rightarrow> Inl e
      | Inr b \<Rightarrow> broadcast1 ValueError f64_minimum a_max b)"

text \<open>
  The process-wide random source is the sequence of the standard-normal draws it will
  hand out next; \<open>randn n\<close> takes the first \<open>n\<close> of them and leaves the rest. A draw of
  NumPy is a finite number, a rational here.
\<close>

type_synonym 'a rng = "nat \<Rightarrow> 'a"

definition randn :: "nat \<Rightarrow> 'a rng \<Rightarrow> 'a list \<times> 'a rng" where
  "randn n g = (map g [0..<n], \<lambda>i. g (i + n))"

section \<open>Environment specifications\<close>

text \<open>
  A \<open>gym.spaces.Box\<close> holds its bounds as arrays of its shape (kept here flattened in
  row-major order); a bound may be infinite, and nothing in the class makes the lower
  bound stay below the upper one. \<open>Discrete\<close> stands for the spaces that are not boxes.
\<close>

record box =
  low :: "f64 list"
  high :: "f64 list"
  shape :: "nat list"

datatype space = Box box | Discrete nat

record env_spec =
  env_observation_space :: space
  env_action_space :: space

definition flat_dim :: "space \<Rightarrow> nat" where
  \<comment> \<open>Modelled from the spec: \<open>garage.envs.util.flat_dim\<close> is not part of the sources.
      The spec describes it as the length of an observation or action vector after
      flattening: the product of the shape of a box, the size of a discrete space.\<close>
  "flat_dim sp = (case sp of Box b \<Rightarrow> prod_list (shape b) | Discrete n \<Rightarrow> n)"

definition space_low :: "space \<Rightarrow> pyerror + f64 list" where
  "space_low sp = (case sp of Box b \<Rightarrow> Inr (low b) | Discrete n \<Rightarrow> Inl AttributeError)"

definition space_high :: "space \<Rightarrow> pyerror + f64 list" where
  "space_high sp = (case sp of Box b \<Rightarrow> Inr (high b) | Discrete n \<Rightarrow> Inl AttributeError)"

section \<open>The Ornstein-Uhlenbeck strategy\<close>

text \<open>
  A method that mutates the object returns what the call returns or raises, together
  with the object as it is afterwards; a method that draws random numbers returns the
  random source as well.
\<close>

record OUStrategy =
  mu :: pynum
  theta :: pynum
  sigma :: pynum
  action_space :: space
  state :: "f64 list"

definition reset :: "OUStrategy \<Rightarrow> (pyerror + unit) \<times> OUStrategy" where
  "reset self =
     (case np_mul_scalar (np_ones (flat_dim (action_space self))) (mu self) of
        Inl e \<Rightarrow> (Inl e, self)
      | Inr s \<Rightarrow> (Inr (), self\<lparr>state := s\<rparr>))"

definition OUStrategy_init ::
  "env_spec \<Rightarrow> pynum \<Rightarrow> pynum \<Rightarrow> pynum \<Rightarrow> pyerror + OUStrategy" where
  \<comment> \<open>\<open>Serializable.quick_init\<close> is not part of the sources. By the spec the
      constructor validates the space and stores the bounds, the dimension, the three
      parameters and the state, so the call is taken to leave these fields alone.\<close>
  "OUStrategy_init env mu0 theta0 sigma0 =
     (case env_action_space env of
        Discrete n \<Rightarrow> Inl AssertionError
      | Box b \<Rightarrow>
          if length (shape b) \<noteq> 1 then Inl AssertionError
          else (case np_mul_scalar (np_ones (flat_dim (env_action_space env))) mu0 of
                  Inl e \<Rightarrow> Inl e
                | Inr s \<Rightarrow>
                    (case reset \<lparr>mu = mu0, theta = theta0, sigma = sigma0,
                                 action_space = env_action_space env, state = s\<rparr> of
                       (Inl e, self) \<Rightarrow> Inl e
                     | (Inr u, self) \<Rightarrow> Inr self)))"

definition evolve_state ::
  "OUStrategy \<Rightarrow> rat rng \<Rightarrow> (pyerror + f64 list) \<times> OUStrategy \<times> rat rng" where
  "evolve_state self g =
     (let x = state self
      in case np_scalar_sub (mu self) x of
           Inl e \<Rightarrow> (Inl e, self, g)
         | Inr d \<Rightarrow>
             (case np_scalar_mul (theta self) d of
                Inl e \<Rightarrow> (Inl e, self, g)
              | Inr drift \<Rightarrow>
                  (let (N, g') = randn (length x) g
                   in case np_scalar_mul (sigma self) (map Fin N) of
                        Inl e \<Rightarrow> (Inl e, self, g')
                      | Inr noise \<Rightarrow>
                          (case np_add drift noise of
                             Inl e \<Rightarrow> (Inl e, self, g')
                           | Inr dx \<Rightarrow>
                               (case np_add x dx of
                                  Inl e \<Rightarrow> (Inl e, self, g')
                                | Inr s \<Rightarrow> (Inr s, self\<lparr>state := s\<rparr>, g'))))))"

definition get_action ::
  "'t \<Rightarrow> 'o \<Rightarrow> ('o \<Rightarrow> pyerror + f64 list \<times> 'x) \<Rightarrow> OUStrategy \<Rightarrow> rat rng
     \<Rightarrow> (pyerror + f64 list) \<times> OUStrategy \<times> rat rng" where
  "get_action t observation policy self g =
     (case policy observation of
        Inl e \<Rightarrow> (Inl e, self, g)
      | Inr (action, _) \<Rightarrow>
          (case evolve_state self g of
             (Inl e, self', g') \<Rightarrow> (Inl e, self', g')
           | (Inr ou_state, self', g') \<Rightarrow>
               (case np_add action ou_state of
                  Inl e \<Rightarrow> (Inl e, self', g')
                | Inr a \<Rightarrow>
                    (case space_low (action_space self') of
                       Inl e \<Rightarrow> (Inl e, self', g')
                     | Inr lo \<Rightarrow>
                         (case space_high (action_space self') of
                            Inl e \<Rightarrow> (Inl e, self', g')
                          | Inr hi \<Rightarrow> (np_clip a lo hi, self', g'))))))"

section \<open>PyTorch tensors\<close>

text \<open>
  A tensor of rank one or two; the entries are real numbers, so the rounding of the
  float32 arithmetic of PyTorch is not part of this model. Two tensors are combined entry by
  entry after broadcasting, a vector counting as a matrix of one row, and a mismatch of
  shapes raises \<open>RuntimeError\<close>.
\<close>

datatype tensor = T1 "real list" | T2 "real list list"

fun collect :: "(pyerror + 'a) list \<Rightarrow> pyerror + 'a list" where
  "collect [] = Inr []"
| "collect (Inl e # rs) = Inl e"
| "collect (Inr x # rs) = (case collect rs of Inl e \<Rightarrow> Inl e | Inr xs \<Rightarrow> Inr (x # xs))"

definition broadcast_rows ::
  "(real \<Rightarrow> real \<Rightarrow> real) \<Rightarrow> real list list \<Rightarrow> real list list \<Rightarrow> pyerror + tensor" where
  "broadcast_rows f rs ss =
     (case broadcast1 RuntimeError (broadcast1 RuntimeError f) rs ss of
        Inl e \<Rightarrow> Inl e
      | Inr rows \<Rightarrow> (case collect rows of Inl e \<Rightarrow> Inl e | Inr m \<Rightarrow> Inr (T2 m)))"

fun tensor_map2 :: "(real \<Rightarrow> real \<Rightarrow> real) \<Rightarrow> tensor \<Rightarrow> tensor \<Rightarrow> pyerror + tensor" where
  "tensor_map2 f (T1 xs) (T1 ys) =
     (case broadcast1 RuntimeError f xs ys of Inl e \<Rightarrow> Inl e | Inr zs \<Rightarrow> Inr (T1 zs))"
| "tensor_map2 f (T2 rs) (T1 ys) = broadcast_rows f rs [ys]"
| "tensor_map2 f (T1 xs) (T2 ss) = broadcast_rows f [xs] ss"
| "tensor_map2 f (T2 rs) (T2 ss) = broadcast_rows f rs ss"

fun tensor_numel :: "tensor \<Rightarrow> nat" where
  "tensor_numel (T1 xs) = length xs"
| "tensor_numel (T2 rs) = sum_list (map length rs)"

fun unflatten :: "'a list list \<Rightarrow> 'b list \<Rightarrow> 'b list list" where
  "unflatten [] ys = []"
| "unflatten (r # rs) ys = take (length r) ys # unflatten rs (drop (length r) ys)"

fun tensor_like :: "tensor \<Rightarrow> real list \<Rightarrow> tensor" where
  \<comment> \<open>the entries \<open>ys\<close>, in row-major order, in the shape of the given tensor\<close>
  "tensor_like (T1 xs) ys = T1 (take (length xs) ys)"
| "tensor_like (T2 rs) ys = T2 (unflatten rs ys)"

fun tensor_sum_dim1 :: "tensor \<Rightarrow> pyerror + tensor" where
  \<comment> \<open>\<open>.sum(dim=1)\<close>: a tensor of rank one has no dimension 1\<close>
  "tensor_sum_dim1 (T1 xs) = Inl IndexError"
| "tensor_sum_dim1 (T2 rs) = Inr (T1 (map sum_list rs))"

subsection \<open>The normal distribution\<close>

record Normal =
  loc :: tensor
  scale :: tensor

definition Normal_init :: "tensor \<Rightarrow> tensor \<Rightarrow> pyerror + Normal" where
  \<comment> \<open>the constructor expands both parameters to their common shape\<close>
  "Normal_init loc0 scale0 =
     (case tensor_map2 (\<lambda>l s. l) loc0 scale0 of
        Inl e \<Rightarrow> Inl e
      | Inr l \<Rightarrow>
          (case tensor_map2 (\<lambda>l s. s) loc0 scale0 of
             Inl e \<Rightarrow> Inl e
           | Inr s \<Rightarrow> Inr \<lparr>loc = l, scale = s\<rparr>))"

definition Normal_sample :: "Normal \<Rightarrow> real rng \<Rightarrow> (pyerror + tensor) \<times> real rng" where
  \<comment> \<open>one standard-normal draw per entry: \<open>loc + scale * eps\<close>\<close>
  "Normal_sample d g =
     (let (eps, g') = randn (tensor_numel (loc d)) g
      in case tensor_map2 (*) (scale d) (tensor_like (loc d) eps) of
           Inl e \<Rightarrow> (Inl e, g')
         | Inr noise \<Rightarrow> (tensor_map2 (+) (loc d) noise, g'))"

definition log_prob :: "Normal \<Rightarrow> tensor \<Rightarrow> pyerror + tensor" where
  \<comment> \<open>\<open>-((value - loc) ** 2) / (2 * scale ** 2) - log(scale) - log(sqrt(2 * pi))\<close>\<close>
  "log_prob d v =
     (case tensor_map2 (-) v (loc d) of
        Inl e \<Rightarrow> Inl e
      | Inr dev \<Rightarrow>
          tensor_map2 (\<lambda>x s. - (x\<^sup>2) / (2 * s\<^sup>2) - ln s - ln (sqrt (2 * pi))) dev (scale d))"

section \<open>The Gaussian MLP policy\<close>

text \<open>
  \<open>nn.Parameter(t)\<close> wraps a tensor and asks for its gradient unless told otherwise.
\<close>

record Parameter =
  data :: "real list"
  requires_grad :: bool

definition nn_Parameter :: "real list \<Rightarrow> Parameter" where
  "nn_Parameter t = \<lparr>data = t, requires_grad = True\<rparr>"

definition torch_ones :: "nat \<Rightarrow> real list" where
  "torch_ones n = replicate n 1"

definition math_log :: "real \<Rightarrow> pyerror + real" where
  "math_log x = (if x \<le> 0 then Inl ValueError else Inr (ln x))"

definition nn_Module_init :: "nat \<Rightarrow> pyerror + unit" where
  \<comment> \<open>\<open>nn.Module.__init__(self)\<close>, called through the class, has one positional
      parameter; the argument is the number of positional arguments of the call\<close>
  "nn_Module_init nargs = (if nargs = 1 then Inr () else Inl TypeError)"

text \<open>
  The field \<open>self.mu\<close> is \<open>mu_mlp\<close> here. The class \<open>MLP\<close> is not part of the
  sources: its constructor is a parameter of the constructor below, and the network
  it builds is a function from tensors to tensors that may raise.
\<close>

record GaussianMLPPolicy =
  mu_mlp :: "tensor \<Rightarrow> pyerror + tensor"
  log_std :: Parameter

definition init_fields ::
  "(nat \<Rightarrow> nat \<Rightarrow> nat list \<Rightarrow> 'f \<Rightarrow> 'f \<Rightarrow> tensor \<Rightarrow> pyerror + tensor) \<Rightarrow> env_spec
     \<Rightarrow> nat list \<Rightarrow> bool \<Rightarrow> real \<Rightarrow> 'f \<Rightarrow> 'f \<Rightarrow> pyerror + GaussianMLPPolicy" where
  \<comment> \<open>the statements of \<open>__init__\<close> that follow the call of \<open>nn.Module.__init__\<close>\<close>
  "init_fields MLP env hidden_sizes learn_std init_std hidden_nonlinearity
       output_nonlinearity =
     (let obs_dim = flat_dim (env_observation_space env);
          action_dim = flat_dim (env_action_space env);
          net = MLP obs_dim action_dim hidden_sizes hidden_nonlinearity output_nonlinearity
      in case math_log init_std of
           Inl e \<Rightarrow> Inl e
         | Inr l \<Rightarrow>
             Inr \<lparr>mu_mlp = net,
                  log_std = nn_Parameter (map (\<lambda>one. l * one) (torch_ones action_dim))\<rparr>)"

definition GaussianMLPPolicy_init ::
  "(nat \<Rightarrow> nat \<Rightarrow> nat list \<Rightarrow> 'f \<Rightarrow> 'f \<Rightarrow> tensor \<Rightarrow> pyerror + tensor) \<Rightarrow> env_spec
     \<Rightarrow> nat list \<Rightarrow> bool \<Rightarrow> real \<Rightarrow> bool \<Rightarrow> 'f \<Rightarrow> 'f \<Rightarrow> pyerror + GaussianMLPPolicy" where
  "GaussianMLPPolicy_init MLP env hidden_sizes learn_std init_std adaptive_std
       hidden_nonlinearity output_nonlinearity =
     (if adaptive_std then Inl NotImplementedError
      else case nn_Module_init 0 of
             Inl e \<Rightarrow> Inl e
           | Inr u \<Rightarrow>
               init_fields MLP env hidden_sizes learn_std init_std hidden_nonlinearity
                 output_nonlinearity)"

definition policy :: "GaussianMLPPolicy \<Rightarrow> tensor \<Rightarrow> pyerror + Normal" where
  "policy self obs =
     (case mu_mlp self obs of
        Inl e \<Rightarrow> Inl e
      | Inr m \<Rightarrow> Normal_init m (T1 (map exp (data (log_std self)))))"

definition logpdf :: "GaussianMLPPolicy \<Rightarrow> tensor \<Rightarrow> tensor \<Rightarrow> pyerror + tensor" where
  "logpdf self obs action =
     (case policy self obs of
        Inl e \<Rightarrow> Inl e
      | Inr d \<Rightarrow> (case log_prob d action of Inl e \<Rightarrow> Inl e | Inr lp \<Rightarrow> tensor_sum_dim1 lp))"

definition logpdf_call :: "GaussianMLPPolicy \<Rightarrow> tensor list \<Rightarrow> pyerror + tensor" where
  \<comment> \<open>a call \<open>self.logpdf(...)\<close> with the given positional arguments: the method has
      the two parameters \<open>obs\<close> and \<open>action\<close>, neither with a default\<close>
  "logpdf_call self args =
     (case args of [obs, action] \<Rightarrow> logpdf self obs action | _ \<Rightarrow> Inl TypeError)"

definition sample ::
  "GaussianMLPPolicy \<Rightarrow> tensor \<Rightarrow> real rng \<Rightarrow> (pyerror + tensor \<times> tensor) \<times> real rng" where
  "sample self obs g =
     (case policy self obs of
        Inl e \<Rightarrow> (Inl e, g)
      | Inr d \<Rightarrow>
          (case Normal_sample d g of
             (Inl e, g') \<Rightarrow> (Inl e, g')
           | (Inr actions, g') \<Rightarrow>
               (case logpdf_call self [actions] of
                  Inl e \<Rightarrow> (Inl e, g')
                | Inr lp \<Rightarrow> (Inr (actions, lp), g'))))"

definition forward ::
  "GaussianMLPPolicy \<Rightarrow> tensor \<Rightarrow> real rng \<Rightarrow> (pyerror + tensor \<times> tensor) \<times> real rng" where
  "forward self obs g = sample self obs g"

definition Module_call ::
  "GaussianMLPPolicy \<Rightarrow> tensor \<Rightarrow> real rng \<Rightarrow> (pyerror + tensor \<times> tensor) \<times> real rng" where
  \<comment> \<open>calling the instance: \<open>nn.Module.__call__\<close> runs \<open>forward\<close> on the arguments
      (the class registers no hooks)\<close>
  "Module_call self obs g = forward self obs g"

section \<open>Properties\<close>

text \<open>
  The invariant of the strategy; a box whose bounds have the length of its shape with
  the lower bound below the upper one; the spaces the constructor accepts; a float64 that
  is the very number a Python number denotes, and the Python numbers for which there is
  one; a difference of two finite float64 that needs no rounding; and one step of
  the recurrence on a component \<open>x\<close> of the state with the draw \<open>n\<close>.
\<close>

definition ou_inv :: "OUStrategy \<Rightarrow> bool" where
  "ou_inv self = (length (state self) = flat_dim (action_space self))"

definition box_wf :: "box \<Rightarrow> bool" where
  "box_wf b =
     (length (low b) = prod_list (shape b) \<and> length (high b) = prod_list (shape b)
      \<and> (\<forall>i<prod_list (shape b). f64_le (low b ! i) (high b ! i)))"

definition is_rank1_box :: "space \<Rightarrow> bool" where
  "is_rank1_box sp = (case sp of Box b \<Rightarrow> length (shape b) = 1 | Discrete n \<Rightarrow> False)"

definition num_eq :: "f64 \<Rightarrow> pynum \<Rightarrow> bool" where
  "num_eq v c = (case c of PyInt k \<Rightarrow> v = Fin (of_int k) | PyFloat w \<Rightarrow> v = w)"

definition num_exact :: "pynum \<Rightarrow> bool" where
  "num_exact c =
     (case c of PyInt k \<Rightarrow> f64_of_rat (of_int k) = Fin (of_int k) | PyFloat w \<Rightarrow> True)"

definition exact_diff :: "f64 \<Rightarrow> f64 \<Rightarrow> bool" where
  "exact_diff m x =
     (case m of
        Fin a \<Rightarrow> (case x of Fin b \<Rightarrow> f64_of_rat (a - b) = Fin (a - b) | _ \<Rightarrow> False)
      | _ \<Rightarrow> False)"

definition ou_next :: "f64 \<Rightarrow> f64 \<Rightarrow> f64 \<Rightarrow> f64 \<Rightarrow> rat \<Rightarrow> f64" where
  "ou_next m th sg x n = f64_add x (f64_add (f64_mul th (f64_sub m x)) (f64_mul sg (Fin n)))"

subsection \<open>Concrete inputs\<close>

text \<open>
  The floats \<open>0.1\<close>, \<open>0.15\<close>, \<open>0.3\<close> and \<open>0.9\<close>, written as the rationals they are.
  The strategy of the module's own script, \<open>mu = 0\<close>, \<open>theta = 0.15\<close> and
  \<open>sigma = 0.3\<close> over \<open>Box(low=-1, high=1, shape=(1,))\<close>; a strategy with full
  reversion and no noise whose mean is \<open>0.1\<close>; the strategy of the script with the
  noise scale \<open>2 ^ 1023\<close>, a finite float64, and the integer \<open>2 ^ 1024\<close>; a base policy that always proposes \<open>0.9\<close>.
\<close>

definition zero_draws :: "rat rng" where
  "zero_draws = (\<lambda>i. 0)"

definition two_draws :: "rat rng" where
  "two_draws = (\<lambda>i. 2)"

definition five_draws :: "rat rng" where
  "five_draws = (\<lambda>i. 5)"

definition tenth :: rat where
  "tenth = 3602879701896397 / 36028797018963968"

definition f015 :: rat where
  "f015 = 5404319552844595 / 36028797018963968"

definition f03 :: rat where
  "f03 = 5404319552844595 / 18014398509481984"

definition f09 :: rat where
  "f09 = 8106479329266893 / 9007199254740992"

definition huge :: rat where
  \<comment> \<open>a finite float64, about \<open>9e307\<close>\<close>
  "huge = 2 powi 1023"

definition beyond :: int where
  \<comment> \<open>the least power of two beyond the range of float64\<close>
  "beyond = 2 ^ 1024"

definition unit_box :: box where
  "unit_box = \<lparr>low = [Fin (- 1)], high = [Fin 1], shape = [1]\<rparr>"

definition inverted_box :: box where
  \<comment> \<open>\<open>Box(low=1, high=-1, shape=(1,))\<close>\<close>
  "inverted_box = \<lparr>low = [Fin 1], high = [Fin (- 1)], shape = [1]\<rparr>"

definition unbounded_box :: box where
  \<comment> \<open>\<open>Box(low=-inf, high=inf, shape=(1,))\<close>\<close>
  "unbounded_box = \<lparr>low = [NInf], high = [PInf], shape = [1]\<rparr>"

definition unit_env :: env_spec where
  "unit_env = \<lparr>env_observation_space = Box unit_box, env_action_space = Box unit_box\<rparr>"

definition script_ou :: OUStrategy where
  "script_ou =
     \<lparr>mu = PyInt 0, theta = PyFloat (Fin f015), sigma = PyFloat (Fin f03),
      action_space = Box unit_box, state = [Fin 0]\<rparr>"

definition reverting_ou :: "f64 list \<Rightarrow> OUStrategy" where
  "reverting_ou xs =
     \<lparr>mu = PyFloat (Fin tenth), theta = PyInt 1, sigma = PyInt 0,
      action_space = Box unit_box, state = xs\<rparr>"

definition wild_ou :: OUStrategy where
  "wild_ou =
     \<lparr>mu = PyInt 0, theta = PyFloat (Fin f015), sigma = PyFloat (Fin huge),
      action_space = Box unit_box, state = [Fin 0]\<rparr>"

definition base_policy :: "unit \<Rightarrow> pyerror + f64 list \<times> unit" where
  "base_policy obs = Inr ([Fin f09], ())"

definition zero_draws_real :: "real rng" where
  "zero_draws_real = (\<lambda>i. 0)"

definition zero_mlp :: "nat \<Rightarrow> nat \<Rightarrow> nat list \<Rightarrow> unit \<Rightarrow> unit \<Rightarrow> tensor \<Rightarrow> pyerror + tensor" where
  \<comment> \<open>a network whose output is zero in every action dimension\<close>
  "zero_mlp obs_dim action_dim hidden_sizes hidden_nonlinearity output_nonlinearity obs =
     (case obs of
        T1 xs \<Rightarrow> Inr (T1 (replicate action_dim 0))
      | T2 rs \<Rightarrow> Inr (T2 (map (\<lambda>r. replicate action_dim 0) rs)))"

definition unit_policy :: GaussianMLPPolicy where
  "unit_policy = \<lparr>mu_mlp = zero_mlp 1 1 [32, 32] () (), log_std = nn_Parameter [0]\<rparr>"

section \<open>Float64 rounding\<close>

text \<open>
  The exponent computed from the bit lengths is the integer logarithm, rounding to
  nearest keeps integer bounds, rounding a float64 again changes nothing, and a power
  of two from \<open>2 ^ -1074\<close> on is its own rounding.
\<close>

lemma round_f64_zero: "round_f64 0 = 0"
  by (simp add: round_f64_def)

lemma bitlen_powi_bounds:
  assumes "0 < p"
  shows "(2::rat) powi (bitlen p - 1) \<le> of_int p" "of_int p < (2::rat) powi (bitlen p)"
proof -
  from assms have b1: "1 \<le> bitlen p" by (auto simp: bitlen_alt_def)
  have "(2::int) ^ nat (bitlen p - 1) \<le> p" using bitlen_bounds [OF assms] by simp
  then have "(of_int ((2::int) ^ nat (bitlen p - 1)) :: rat) \<le> of_int p"
    by (simp only: of_int_le_iff)
  then show "(2::rat) powi (bitlen p - 1) \<le> of_int p"
    using b1 by (simp add: power_int_nonneg_exp)
  have "p < (2::int) ^ nat (bitlen p)" using bitlen_bounds [OF assms] by simp
  then have "(of_int p :: rat) < of_int ((2::int) ^ nat (bitlen p))"
    by (simp only: of_int_less_iff)
  then show "of_int p < (2::rat) powi (bitlen p)"
    using b1 by (simp add: power_int_nonneg_exp)
qed

lemma ilog2_bounds:
  assumes "0 < x"
  shows "2 powi (ilog2 x) \<le> x" "x < 2 powi (ilog2 x + 1)"
proof -
  obtain p q where pq: "quotient_of x = (p, q)" by (cases "quotient_of x")
  have q: "0 < q" using quotient_of_denom_pos [OF pq] .
  have x: "x = of_int p / of_int q" using quotient_of_div [OF pq] .
  have p: "0 < p" using assms q x by (simp add: zero_less_divide_iff)
  let ?e = "bitlen p - bitlen q"
  have up: "x < 2 powi (?e + 1)"
  proof -
    have "x * of_int q = (of_int p :: rat)" using x q by simp
    also have "\<dots> < 2 powi (bitlen p)" using bitlen_powi_bounds(2) [OF p] .
    also have "\<dots> = 2 powi (?e + 1) * 2 powi (bitlen q - 1)"
      by (simp add: power_int_add [symmetric])
    also have "\<dots> \<le> 2 powi (?e + 1) * of_int q"
      using bitlen_powi_bounds(1) [OF q] by (simp add: mult_left_mono)
    finally show ?thesis using q by simp
  qed
  have lo: "2 powi (?e - 1) \<le> x"
  proof -
    have "(2::rat) powi (?e - 1) * of_int q \<le> 2 powi (?e - 1) * 2 powi (bitlen q)"
      using bitlen_powi_bounds(2) [OF q] by (simp add: mult_left_mono)
    also have "\<dots> = 2 powi (bitlen p - 1)"
      by (simp add: power_int_add [symmetric])
    also have "\<dots> \<le> of_int p" using bitlen_powi_bounds(1) [OF p] .
    also have "\<dots> = x * of_int q" using x q by simp
    finally show ?thesis using q by simp
  qed
  show "2 powi (ilog2 x) \<le> x"
    using lo by (simp add: ilog2_def pq Let_def)
  show "x < 2 powi (ilog2 x + 1)"
    using up by (auto simp add: ilog2_def pq Let_def not_le)
qed

lemma round_half_even_of_int: "round_half_even (of_int n) = n"
  by (simp add: round_half_even_def)

lemma round_half_even_le:
  assumes "r \<le> of_int b"
  shows "round_half_even r \<le> b"
proof -
  have f: "\<lfloor>r\<rfloor> \<le> b" using assms by (simp add: floor_le_iff)
  show ?thesis
  proof (cases "\<lfloor>r\<rfloor> = b")
    case True
    then have "r = of_int b" using assms by linarith
    then show ?thesis by (simp add: round_half_even_of_int)
  next
    case False
    with f have "\<lfloor>r\<rfloor> + 1 \<le> b" by simp
    then show ?thesis by (auto simp add: round_half_even_def Let_def)
  qed
qed

lemma round_half_even_ge:
  assumes "of_int a \<le> r"
  shows "a \<le> round_half_even r"
proof -
  have "a \<le> \<lfloor>r\<rfloor>" using assms by (simp add: le_floor_iff)
  then show ?thesis by (auto simp add: round_half_even_def Let_def)
qed


lemma powi_two_le_cancel:
  assumes "(2::rat) powi a \<le> 2 powi b"
  shows "a \<le> b"
proof (rule ccontr)
  assume "\<not> a \<le> b"
  then have "b < a" by simp
  then have "(2::rat) powi b < 2 powi a" by (rule power_int_strict_increasing) simp
  with assms show False by simp
qed

lemma round_f64_exact:
  assumes "y = of_int m * 2 powi k" and "k = max (ilog2 \<bar>y\<bar> - 52) (- 1074)" and "y \<noteq> 0"
  shows "round_f64 y = y"
proof -
  have d: "y / 2 powi k = of_int m" using assms(1) by simp
  have "round_f64 y = of_int (round_half_even (y / 2 powi k)) * 2 powi k"
    unfolding round_f64_def Let_def assms(2) [symmetric] using assms(3) by simp
  also have "\<dots> = of_int m * 2 powi k"
    unfolding d round_half_even_of_int ..
  finally show ?thesis using assms(1) by simp
qed

lemma round_f64_idem: "round_f64 (round_f64 x) = round_f64 x"
proof (cases "x = 0")
  case True
  then show ?thesis by (simp add: round_f64_def)
next
  case False
  define q where "q = max (ilog2 \<bar>x\<bar> - 52) (- 1074)"
  define n where "n = round_half_even (x / 2 powi q)"
  define y where "y = of_int n * (2::rat) powi q"
  have rx: "round_f64 x = y"
    using False by (simp add: round_f64_def Let_def q_def n_def y_def)
  show ?thesis
  proof (cases "n = 0")
    case True
    then have "y = 0" by (simp add: y_def)
    then show ?thesis unfolding rx by (simp add: round_f64_def)
  next
    case n0: False
    have y0: "y \<noteq> 0" using n0 by (simp add: y_def)
    have ax: "0 < \<bar>x\<bar>" using False by simp
    have "\<bar>x\<bar> < 2 powi (ilog2 \<bar>x\<bar> + 1)" using ilog2_bounds(2) [OF ax] .
    also have "\<dots> \<le> 2 powi (q + 53)"
      by (rule power_int_increasing) (simp_all add: q_def)
    also have "\<dots> = 2 powi q * 2 ^ 53"
      by (simp add: power_int_add)
    finally have "\<bar>x\<bar> < 2 powi q * 2 ^ 53" .
    then have "\<bar>x\<bar> / 2 powi q < 2 ^ 53"
      by (simp add: pos_divide_less_eq mult.commute)
    then have lt: "\<bar>x\<bar> / 2 powi q < 2 ^ 53" .
    have "x / 2 powi q \<le> \<bar>x\<bar> / 2 powi q"
      by (rule divide_right_mono) simp_all
    with lt have b1: "x / 2 powi q \<le> of_int (2 ^ 53)" by simp
    have "(- \<bar>x\<bar>) / 2 powi q \<le> x / 2 powi q"
      by (rule divide_right_mono) simp_all
    with lt have b2: "of_int (- (2 ^ 53)) \<le> x / 2 powi q" by simp
    have nle: "n \<le> 2 ^ 53" unfolding n_def by (rule round_half_even_le [OF b1])
    have nge: "- (2 ^ 53) \<le> n" unfolding n_def by (rule round_half_even_ge [OF b2])
    define k where "k = max (ilog2 \<bar>y\<bar> - 52) (- 1074)"
    have ay: "\<bar>y\<bar> = of_int \<bar>n\<bar> * 2 powi q"
      by (simp add: y_def abs_mult)
    have "\<exists>m. y = of_int m * 2 powi k"
    proof (cases "k \<le> q")
      case True
      have "y = of_int n * (2 powi (q - k) * 2 powi k)"
        by (simp add: y_def power_int_add [symmetric])
      also have "(2::rat) powi (q - k) = of_int (2 ^ nat (q - k))"
        using True by (simp add: power_int_nonneg_exp)
      finally have "y = of_int (n * 2 ^ nat (q - k)) * 2 powi k"
        by (simp add: mult.assoc)
      then show ?thesis by blast
    next
      case False
      then have kq: "q < k" by simp
      have qlo: "- 1074 \<le> q" by (simp add: q_def)
      from kq qlo have ke: "k = ilog2 \<bar>y\<bar> - 52" by (simp add: k_def max_def split: if_splits)
      have "(2::rat) powi (k + 52) \<le> \<bar>y\<bar>"
        using ilog2_bounds(1) [of "\<bar>y\<bar>"] y0 ke by simp
      also have "\<dots> \<le> of_int (2 ^ 53) * 2 powi q"
        unfolding ay using nle nge by (intro mult_right_mono) (simp_all add: abs_le_iff del: of_int_power of_int_numeral)
      also have "\<dots> = 2 powi (q + 53)" by (simp add: power_int_add)
      finally have "k + 52 \<le> q + 53" by (rule powi_two_le_cancel)
      with kq have k: "k = q + 1" by simp
      from ke k have "ilog2 \<bar>y\<bar> = q + 53" by simp
      then have "(2::rat) powi (q + 53) \<le> \<bar>y\<bar>"
        using ilog2_bounds(1) [of "\<bar>y\<bar>"] y0 by simp
      then have "(2::rat) ^ 53 * 2 powi q \<le> of_int \<bar>n\<bar> * 2 powi q"
        by (simp add: ay power_int_add)
      then have "(2::rat) ^ 53 \<le> of_int \<bar>n\<bar>" by simp
      then have "(of_int (2 ^ 53) :: rat) \<le> of_int \<bar>n\<bar>" by simp
      then have "2 ^ 53 \<le> \<bar>n\<bar>" by (simp only: of_int_le_iff)
      with nle nge have "n = 2 ^ 53 \<or> n = - (2 ^ 53)" by linarith
      then have "n = 2 * 2 ^ 52 \<or> n = 2 * (- (2 ^ 52))" by simp
      then obtain m where m: "n = 2 * m" by blast
      have "y = of_int m * 2 powi k"
        by (simp add: y_def m k power_int_add)
      then show ?thesis by blast
    qed
    then obtain m where "y = of_int m * 2 powi k" ..
    then have "round_f64 y = y" using k_def y0 by (rule round_f64_exact)
    then show ?thesis by (simp add: rx)
  qed
qed

lemma ilog2_pow2: "ilog2 (2 powi k) = k"
proof -
  have p: "(0::rat) < 2 powi k" by simp
  have "ilog2 (2 powi k) \<le> k"
    using ilog2_bounds(1) [OF p] by (rule powi_two_le_cancel)
  moreover have "k < ilog2 (2 powi k) + 1"
  proof (rule ccontr)
    assume "\<not> k < ilog2 (2 powi k) + 1"
    then have "ilog2 (2 powi k) + 1 \<le> k" by simp
    then have "(2::rat) powi (ilog2 (2 powi k) + 1) \<le> 2 powi k"
      by (intro power_int_increasing) simp_all
    with ilog2_bounds(2) [OF p] show False by simp
  qed
  ultimately show ?thesis by simp
qed

lemma round_f64_pow2:
  assumes "- 1074 \<le> k"
  shows "round_f64 (2 powi k) = 2 powi k"
proof -
  define q where "q = max (k - 52) (- 1074)"
  have qk: "q \<le> k" using assms by (simp add: q_def)
  have "(2::rat) powi k = 2 powi (k - q) * 2 powi q"
    by (simp add: power_int_add [symmetric])
  also have "(2::rat) powi (k - q) = of_int (2 ^ nat (k - q))"
    using qk by (simp add: power_int_nonneg_exp)
  finally have y: "(2::rat) powi k = of_int (2 ^ nat (k - q)) * 2 powi q" .
  have a: "\<bar>(2::rat) powi k\<bar> = 2 powi k" by simp
  have "q = max (ilog2 \<bar>(2::rat) powi k\<bar> - 52) (- 1074)"
    unfolding a ilog2_pow2 q_def ..
  with y show ?thesis by (intro round_f64_exact [of _ "2 ^ nat (k - q)" q]) simp_all
qed

section \<open>Float64 values: lemmas\<close>

lemma f64_of_rat_zero: "f64_of_rat 0 = Fin 0"
  by (simp add: f64_of_rat_def round_f64_zero)

lemma ilog2_less_iff:
  assumes "0 < x"
  shows "ilog2 x < k \<longleftrightarrow> x < 2 powi k"
proof
  assume "ilog2 x < k"
  then have "ilog2 x + 1 \<le> k" by simp
  then have "(2::rat) powi (ilog2 x + 1) \<le> 2 powi k"
    by (intro power_int_increasing) simp_all
  with ilog2_bounds(2) [OF assms] show "x < 2 powi k" by simp
next
  assume a: "x < 2 powi k"
  show "ilog2 x < k"
  proof (rule ccontr)
    assume "\<not> ilog2 x < k"
    then have "k \<le> ilog2 x" by simp
    then have "(2::rat) powi k \<le> 2 powi (ilog2 x)"
      by (intro power_int_increasing) simp_all
    with ilog2_bounds(1) [OF assms] a show False by simp
  qed
qed

text \<open>A rounded result is finite exactly when its magnitude stays below \<open>2 ^ 1024\<close>.\<close>

lemma f64_of_rat_finite_iff:
  "(\<exists>r. f64_of_rat x = Fin r) \<longleftrightarrow> \<bar>round_f64 x\<bar> < 2 ^ 1024"
proof (cases "round_f64 x = 0")
  case True
  then show ?thesis by (simp add: f64_of_rat_def)
next
  case False
  then have "0 < \<bar>round_f64 x\<bar>" by simp
  from ilog2_less_iff [OF this, of 1024] False show ?thesis
    by (auto simp add: f64_of_rat_def Let_def)
qed

lemma f64_of_rat_idem:
  assumes "f64_of_rat x = Fin r"
  shows "f64_of_rat r = Fin r"
proof -
  from assms have r: "r = round_f64 x" and b: "r = 0 \<or> ilog2 \<bar>r\<bar> < 1024"
    by (auto simp add: f64_of_rat_def Let_def split: if_splits)
  from r have "round_f64 r = r" by (simp add: round_f64_idem)
  with b show ?thesis by (auto simp add: f64_of_rat_def Let_def)
qed

lemma f64_valid_of_rat: "f64_valid (f64_of_rat x)"
  by (cases "f64_of_rat x") (simp_all add: f64_valid_def f64_of_rat_idem)

lemma f64_of_rat_beyond: "f64_of_rat (2 powi 1024) = PInf"
proof -
  have r: "round_f64 (2 powi 1024) = 2 powi 1024" by (rule round_f64_pow2) simp
  have a: "\<bar>(2::rat) powi 1024\<bar> = 2 powi 1024" "(2::rat) powi 1024 \<noteq> 0" "(0::rat) < 2 powi 1024"
    by simp_all
  show ?thesis unfolding f64_of_rat_def Let_def r a(1) ilog2_pow2 using a(2,3) by simp
qed

lemma f64_valid_huge: "f64_valid (Fin huge)"
proof -
  have r: "round_f64 (2 powi 1023) = 2 powi 1023" by (rule round_f64_pow2) simp
  have a: "\<bar>(2::rat) powi 1023\<bar> = 2 powi 1023" by simp
  have "f64_of_rat (2 powi 1023) = Fin (2 powi 1023)"
    unfolding f64_of_rat_def Let_def r a ilog2_pow2 by simp
  then show ?thesis unfolding f64_valid_def huge_def by simp
qed

lemma f64_mul_huge_two: "f64_mul (Fin huge) (Fin 2) = PInf"
proof -
  have e: "huge * 2 = 2 powi 1024" unfolding huge_def by simp
  show ?thesis unfolding f64_mul.simps(1) e by (rule f64_of_rat_beyond)
qed

lemma as_float64_beyond: "as_float64 (PyInt beyond) = Inl OverflowError"
proof -
  have e: "(of_int beyond :: rat) = 2 powi 1024" unfolding beyond_def by simp
  show ?thesis unfolding as_float64_def by (simp only: pynum.case e f64_of_rat_beyond f64.case)
qed

lemma f64_valid_add: "f64_valid (f64_add x y)"
  by (cases x; cases y) (simp_all add: f64_valid_of_rat, simp_all add: f64_valid_def)

lemma f64_valid_sub: "f64_valid (f64_sub x y)"
  by (simp add: f64_sub_def f64_valid_add)

lemma f64_sub_Fin: "f64_sub (Fin a) (Fin b) = f64_of_rat (a - b)"
  by (simp add: f64_sub_def f64_neg_def)

lemma f64_mul_one_left: "f64_valid v \<Longrightarrow> f64_mul (Fin 1) v = v"
  by (cases v) (simp_all add: f64_valid_def inf_of_sign_def)

lemma f64_add_zero_right: "f64_valid v \<Longrightarrow> f64_add v (Fin 0) = v"
  by (cases v) (simp_all add: f64_valid_def)

lemma as_float64_error: "as_float64 c = Inl e \<Longrightarrow> e = OverflowError"
  by (auto simp add: as_float64_def split: pynum.splits f64.splits)

lemma as_float64_valid:
  assumes "as_float64 c = Inr v" and "pynum_valid c"
  shows "f64_valid v"
proof (cases c)
  case (PyInt k)
  with assms(1) have "f64_of_rat (of_int k) = v"
    by (auto simp add: as_float64_def split: f64.splits)
  then show ?thesis using f64_valid_of_rat [of "of_int k"] by simp
next
  case (PyFloat w)
  with assms show ?thesis by (simp add: as_float64_def pynum_valid_def)
qed

lemma as_float64_num_eq:
  assumes "as_float64 c = Inr v"
  shows "num_eq v c \<longleftrightarrow> num_exact c"
  using assms
  by (cases c) (auto simp add: as_float64_def num_eq_def num_exact_def split: f64.splits)

text \<open>
  Clipping one entry: with the lower bound below the upper one, the result is NaN where
  the entry is, and lies between the bounds where it is not.
\<close>

lemma clip_entry:
  assumes "f64_le lo hi"
  shows "(f64_minimum hi (f64_maximum a lo) = NaN \<longleftrightarrow> a = NaN)
         \<and> (a \<noteq> NaN \<longrightarrow> f64_le lo (f64_minimum hi (f64_maximum a lo))
                          \<and> f64_le (f64_minimum hi (f64_maximum a lo)) hi)"
  using assms
  by (cases a; cases lo; cases hi)
     (auto simp add: f64_minimum_def f64_maximum_def)

section \<open>The Ornstein-Uhlenbeck strategy: lemmas\<close>

lemma broadcast1_same_length:
  "length xs = length ys \<Longrightarrow> broadcast1 e f xs ys = Inr (map2 f xs ys)"
  by (simp add: broadcast1_def)

lemma length_randn: "length (fst (randn n g)) = n"
  by (simp add: randn_def)

lemma map2_ignore_right:
  "length ys = length xs \<Longrightarrow> map2 (\<lambda>x y. h x) xs ys = map h xs"
  by (induction xs arbitrary: ys) (auto simp: length_Suc_conv)

lemma ones_times:
  assumes "as_float64 c = Inr v" and "f64_valid v"
  shows "np_mul_scalar (np_ones n) c = Inr (replicate n v)"
  using assms by (simp add: np_mul_scalar_def np_ones_def f64_mul_one_left)

lemma ones_times_error:
  assumes "as_float64 c = Inl e"
  shows "np_mul_scalar (np_ones n) c = Inl e"
  using assms by (simp add: np_mul_scalar_def)

lemma reset_eq:
  assumes "as_float64 (mu self) = Inr v" and "f64_valid v"
  shows "reset self = (Inr (), self\<lparr>state := replicate (flat_dim (action_space self)) v\<rparr>)"
  using assms by (simp add: reset_def ones_times)

lemma reset_error:
  assumes "as_float64 (mu self) = Inl e"
  shows "reset self = (Inl e, self)"
  using assms by (simp add: reset_def ones_times_error)

lemma reset_length:
  "fst (reset self) = Inr () \<Longrightarrow> length (state (snd (reset self))) = flat_dim (action_space self)"
  by (auto simp add: reset_def np_mul_scalar_def np_ones_def split: sum.splits)

lemma reset_action_space: "action_space (snd (reset self)) = action_space self"
  by (auto simp add: reset_def split: sum.splits)

lemma reset_state_on_error:
  "fst (reset self) \<noteq> Inr () \<Longrightarrow> snd (reset self) = self"
  by (auto simp add: reset_def split: sum.splits)

lemma OUStrategy_init_Box:
  assumes "env_action_space env = Box b" and "length (shape b) = 1"
    and "as_float64 m = Inr v" and "f64_valid v"
  shows "OUStrategy_init env m th sg =
           Inr \<lparr>mu = m, theta = th, sigma = sg, action_space = Box b,
                state = replicate (flat_dim (Box b)) v\<rparr>"
  using assms by (simp add: OUStrategy_init_def ones_times reset_eq)

lemma OUStrategy_init_overflow:
  assumes "env_action_space env = Box b" and "length (shape b) = 1"
    and "as_float64 m = Inl e"
  shows "OUStrategy_init env m th sg = Inl e"
  using assms by (simp add: OUStrategy_init_def ones_times_error)

lemma OUStrategy_init_not_Box:
  assumes "\<not> is_rank1_box (env_action_space env)"
  shows "OUStrategy_init env m th sg = Inl AssertionError"
  using assms by (auto simp add: OUStrategy_init_def is_rank1_box_def split: space.splits)

lemma OUStrategy_init_inv:
  assumes "OUStrategy_init env m th sg = Inr self"
  shows "ou_inv self"
proof -
  from assms obtain b s where b: "env_action_space env = Box b"
    and r: "reset \<lparr>mu = m, theta = th, sigma = sg, action_space = Box b, state = s\<rparr>
              = (Inr (), self)"
    by (auto simp add: OUStrategy_init_def split: space.splits if_splits sum.splits prod.splits)
  let ?p = "\<lparr>mu = m, theta = th, sigma = sg, action_space = Box b, state = s\<rparr>"
  from r have "fst (reset ?p) = Inr ()" "snd (reset ?p) = self" by simp_all
  then show ?thesis
    using reset_length [of ?p] reset_action_space [of ?p] by (simp add: ou_inv_def)
qed

lemma evolve_state_eq:
  assumes "as_float64 (mu self) = Inr m" and "as_float64 (theta self) = Inr th"
    and "as_float64 (sigma self) = Inr sg"
  shows "evolve_state self g =
     (Inr (map2 (ou_next m th sg) (state self) (fst (randn (length (state self)) g))),
      self\<lparr>state := map2 (ou_next m th sg) (state self) (fst (randn (length (state self)) g))\<rparr>,
      snd (randn (length (state self)) g))"
proof -
  obtain N g' where r: "randn (length (state self)) g = (N, g')"
    by (cases "randn (length (state self)) g")
  then have lN: "length N = length (state self)"
    using length_randn [of "length (state self)" g] by simp
  have dx: "np_add (map (f64_mul th) (map (f64_sub m) (state self))) (map (f64_mul sg) (map Fin N))
            = Inr (map2 (\<lambda>x n. f64_add (f64_mul th (f64_sub m x)) (f64_mul sg (Fin n)))
                     (state self) N)"
    using lN
    by (simp add: np_add_def broadcast1_same_length zip_map1 zip_map2 case_prod_unfold comp_def)
  have s: "np_add (state self)
             (map2 (\<lambda>x n. f64_add (f64_mul th (f64_sub m x)) (f64_mul sg (Fin n)))
                (state self) N)
           = Inr (map2 (ou_next m th sg) (state self) N)"
    using lN
    by (simp add: np_add_def broadcast1_same_length ou_next_def zip_map2 case_prod_unfold
        comp_def zip_same_conv_map list_eq_iff_nth_eq)
  show ?thesis
    unfolding evolve_state_def Let_def np_scalar_sub_def np_scalar_mul_def assms r
    using dx s by simp
qed

lemma evolve_state_length:
  "length (state (fst (snd (evolve_state self g)))) = length (state self)"
proof -
  obtain N g' where r: "randn (length (state self)) g = (N, g')"
    by (cases "randn (length (state self)) g")
  then have lN: "length N = length (state self)"
    using length_randn [of "length (state self)" g] by simp
  show ?thesis
    unfolding evolve_state_def Let_def r using lN
    by (auto simp add: np_scalar_sub_def np_scalar_mul_def np_add_def broadcast1_same_length
        split: sum.splits)
qed

lemma evolve_state_action_space:
  "action_space (fst (snd (evolve_state self g))) = action_space self"
  by (auto simp add: evolve_state_def Let_def split: sum.splits prod.splits)

lemma get_action_strategy:
  "fst (snd (get_action t observation pol self g)) = self
   \<or> fst (snd (get_action t observation pol self g)) = fst (snd (evolve_state self g))"
  by (auto simp add: get_action_def split: sum.splits prod.splits)

lemma ou_next_full_reversion:
  "ou_next m (Fin 1) (Fin 0) x n = f64_add x (f64_sub m x)"
  by (simp add: ou_next_def f64_of_rat_zero f64_mul_one_left f64_add_zero_right f64_valid_sub)

lemma f64_add_sub_exact:
  assumes "f64_valid m" and "exact_diff m x"
  shows "f64_add x (f64_sub m x) = m"
  using assms
  by (cases m; cases x) (simp_all add: exact_diff_def f64_sub_Fin f64_valid_def)

lemma exact_diff_self:
  assumes "f64_valid (Fin a)"
  shows "exact_diff (Fin a) (Fin a)"
  using assms by (simp add: exact_diff_def f64_of_rat_zero)

lemma np_clip_bounds:
  assumes "length a = n" "length lo = n" "length hi = n" "\<forall>i<n. f64_le (lo ! i) (hi ! i)"
  shows "\<exists>c. np_clip a lo hi = Inr c \<and> length c = n
           \<and> (\<forall>i<n. (c ! i = NaN \<longleftrightarrow> a ! i = NaN)
                 \<and> (c ! i \<noteq> NaN \<longrightarrow> f64_le (lo ! i) (c ! i) \<and> f64_le (c ! i) (hi ! i)))"
proof -
  have c: "np_clip a lo hi = Inr (map2 f64_minimum hi (map2 f64_maximum a lo))"
    using assms(1-3) by (simp add: np_clip_def broadcast1_same_length)
  have "\<forall>i<n. (map2 f64_minimum hi (map2 f64_maximum a lo) ! i = NaN \<longleftrightarrow> a ! i = NaN)
          \<and> (map2 f64_minimum hi (map2 f64_maximum a lo) ! i \<noteq> NaN \<longrightarrow>
               f64_le (lo ! i) (map2 f64_minimum hi (map2 f64_maximum a lo) ! i)
               \<and> f64_le (map2 f64_minimum hi (map2 f64_maximum a lo) ! i) (hi ! i))"
  proof (intro allI impI)
    fix i assume i: "i < n"
    with assms(4) have "f64_le (lo ! i) (hi ! i)" by simp
    from clip_entry [OF this, of "a ! i"] i assms(1-3)
    show "(map2 f64_minimum hi (map2 f64_maximum a lo) ! i = NaN \<longleftrightarrow> a ! i = NaN)
          \<and> (map2 f64_minimum hi (map2 f64_maximum a lo) ! i \<noteq> NaN \<longrightarrow>
               f64_le (lo ! i) (map2 f64_minimum hi (map2 f64_maximum a lo) ! i)
               \<and> f64_le (map2 f64_minimum hi (map2 f64_maximum a lo) ! i) (hi ! i))"
      by auto
  qed
  with c assms(1-3) show ?thesis by simp
qed

text \<open>The strategy with the noise scale \<open>2 ^ 1023\<close>: two calls of \<open>get_action\<close>.\<close>

lemma as_float64_zero: "as_float64 (PyInt 0) = Inr (Fin 0)"
  by (simp add: as_float64_def f64_of_rat_zero)

lemma f64_of_rat_huge_two: "f64_of_rat (huge * 2) = PInf"
  using f64_mul_huge_two by simp

lemma wild_evolve_first:
  "evolve_state wild_ou two_draws
     = (Inr [PInf], wild_ou\<lparr>state := [PInf]\<rparr>, snd (randn 1 two_draws))"
  by (simp add: evolve_state_def wild_ou_def np_scalar_sub_def np_scalar_mul_def
      as_float64_zero as_float64_def f64_sub_def f64_neg_def f64_of_rat_zero randn_def
      two_draws_def f64_of_rat_huge_two np_add_def broadcast1_def)

lemma wild_action_space: "action_space wild_ou = Box unit_box"
  by (simp add: wild_ou_def)

lemma wild_first_call:
  "get_action (0::nat) () base_policy wild_ou two_draws
     = (Inr [Fin 1], wild_ou\<lparr>state := [PInf]\<rparr>, snd (randn 1 two_draws))"
  by (simp add: get_action_def base_policy_def wild_evolve_first wild_action_space np_add_def
      np_clip_def broadcast1_def space_low_def space_high_def unit_box_def f64_maximum_def
      f64_minimum_def)

lemma wild_evolve_second:
  assumes "g 0 = 2"
  shows "evolve_state (wild_ou\<lparr>state := [PInf]\<rparr>) g
           = (Inr [NaN], wild_ou\<lparr>state := [NaN]\<rparr>, snd (randn (Suc 0) g))"
  using assms
  by (simp add: evolve_state_def wild_ou_def np_scalar_sub_def np_scalar_mul_def
      as_float64_zero as_float64_def f64_sub_def f64_neg_def f64_of_rat_zero inf_of_sign_def
      f015_def randn_def f64_of_rat_huge_two np_add_def broadcast1_def)

lemma wild_second_call:
  assumes "g 0 = 2"
  shows "fst (get_action t () base_policy (wild_ou\<lparr>state := [PInf]\<rparr>) g) = Inr [NaN]"
  by (simp add: get_action_def base_policy_def wild_evolve_second [of g, OF assms]
      wild_action_space np_add_def np_clip_def broadcast1_def space_low_def space_high_def
      unit_box_def f64_maximum_def f64_minimum_def)

lemma wild_two_calls:
  "fst (get_action (1::nat) () base_policy
         (fst (snd (get_action (0::nat) () base_policy wild_ou two_draws)))
         (snd (snd (get_action (0::nat) () base_policy wild_ou two_draws))))
     = Inr [NaN]"
  unfolding wild_first_call fst_conv snd_conv
  by (rule wild_second_call) (simp add: randn_def two_draws_def)

section \<open>The Ornstein-Uhlenbeck strategy: theorems\<close>

text \<open>
  C3, as amended. Let the strategy hold a box whose bounds have the dimension of the
  action space, the lower below the upper in every component, let its state have that
  dimension, let \<open>mu\<close>, \<open>theta\<close> and \<open>sigma\<close> convert to float64, and let the base policy
  return an action of that dimension. Then \<open>get_action\<close> returns an action of that
  dimension, and each of its components is NaN exactly where the float64 sum of the
  base action and the new state is NaN, and lies between the lower and the upper bound
  where it is not NaN.
\<close>

theorem get_action_within_bounds:
  assumes "action_space self = Box b" and "box_wf b" and "ou_inv self"
    and "pol observation = Inr (action, aux)"
    and "length action = flat_dim (action_space self)"
    and "as_float64 (mu self) = Inr m" and "as_float64 (theta self) = Inr th"
    and "as_float64 (sigma self) = Inr sg"
  shows "\<exists>a. fst (get_action t observation pol self g) = Inr a
           \<and> length a = flat_dim (action_space self)
           \<and> (\<forall>i<length a.
                 (a ! i = NaN \<longleftrightarrow>
                    f64_add (action ! i)
                      (state (fst (snd (get_action t observation pol self g))) ! i) = NaN)
                 \<and> (a ! i \<noteq> NaN \<longrightarrow> f64_le (low b ! i) (a ! i) \<and> f64_le (a ! i) (high b ! i)))"
proof -
  let ?n = "prod_list (shape b)"
  let ?s = "map2 (ou_next m th sg) (state self) (fst (randn (length (state self)) g))"
  have n: "flat_dim (action_space self) = ?n" using assms(1) by (simp add: flat_dim_def)
  have ls: "length ?s = ?n" using assms(3) n by (simp add: ou_inv_def length_randn)
  have la: "length action = ?n" using assms(5) n by simp
  have sum: "np_add action ?s = Inr (map2 f64_add action ?s)"
    unfolding np_add_def using la ls by (intro broadcast1_same_length) simp
  have lsum: "length (map2 f64_add action ?s) = ?n" using la ls by simp
  from assms(2) have "length (low b) = ?n" "length (high b) = ?n"
    "\<forall>i<?n. f64_le (low b ! i) (high b ! i)"
    by (simp_all add: box_wf_def)
  from np_clip_bounds [OF lsum this]
  obtain c where c: "np_clip (map2 f64_add action ?s) (low b) (high b) = Inr c"
    "length c = ?n"
    "\<forall>i<?n. (c ! i = NaN \<longleftrightarrow> map2 f64_add action ?s ! i = NaN)
        \<and> (c ! i \<noteq> NaN \<longrightarrow> f64_le (low b ! i) (c ! i) \<and> f64_le (c ! i) (high b ! i))"
    by blast
  have e: "evolve_state self g = (Inr ?s, self\<lparr>state := ?s\<rparr>, snd (randn (length (state self)) g))"
    using assms(6-8) by (rule evolve_state_eq)
  have r: "get_action t observation pol self g
             = (Inr c, self\<lparr>state := ?s\<rparr>, snd (randn (length (state self)) g))"
    using assms(1,4) sum c(1)
    by (simp add: get_action_def e space_low_def space_high_def)
  have "\<forall>i<?n. map2 f64_add action ?s ! i = f64_add (action ! i) (?s ! i)"
    using la ls by simp
  with c(2,3) n r show ?thesis by simp
qed

theorem get_action_within_bounds_witness:
  "\<exists>a. fst (get_action (0::nat) () base_policy (script_ou\<lparr>state := [Fin 5]\<rparr>) zero_draws) = Inr a
      \<and> a = [Fin 1] \<and> length a = 1 \<and> f64_le (Fin (- 1)) (a ! 0) \<and> f64_le (a ! 0) (Fin 1)"
proof -
  let ?self = "script_ou\<lparr>state := [Fin 5]\<rparr>"
  have h1: "action_space ?self = Box unit_box" by (simp add: script_ou_def)
  have h2: "box_wf unit_box" by (simp add: box_wf_def unit_box_def)
  have h3: "ou_inv ?self" by (simp add: ou_inv_def script_ou_def flat_dim_def unit_box_def)
  have h4: "base_policy () = Inr ([Fin f09], ())" by (simp add: base_policy_def)
  have h5: "length [Fin f09] = flat_dim (action_space ?self)"
    by (simp add: script_ou_def flat_dim_def unit_box_def)
  have h6: "as_float64 (mu ?self) = Inr (Fin 0)" by code_simp
  have h7: "as_float64 (theta ?self) = Inr (Fin f015)" by (simp add: script_ou_def as_float64_def)
  have h8: "as_float64 (sigma ?self) = Inr (Fin f03)" by (simp add: script_ou_def as_float64_def)
  have v: "fst (get_action (0::nat) () base_policy ?self zero_draws) = Inr [Fin 1]"
    by code_simp
  from get_action_within_bounds
    [where pol = base_policy and observation = "()" and t = "0::nat" and g = zero_draws,
      OF h1 h2 h3 h4 h5 h6 h7 h8]
  obtain a where a: "fst (get_action (0::nat) () base_policy ?self zero_draws) = Inr a"
    "length a = 1"
    "a ! 0 \<noteq> NaN \<longrightarrow> f64_le (Fin (- 1)) (a ! 0) \<and> f64_le (a ! 0) (Fin 1)"
    by (auto simp add: script_ou_def flat_dim_def unit_box_def)
  from a(1) v have "a = [Fin 1]" by simp
  with a show ?thesis by simp
qed

text \<open>
  The claim as the spec states it fails in two ways. The strategy built with the finite
  noise scale \<open>2 ^ 1023\<close> and the draws \<open>2.0\<close> has the state \<open>inf\<close> after one call of
  \<open>get_action\<close> and returns NaN, which is in no interval, at the next call. And on
  \<open>Box(low=1, high=-1, shape=(1,))\<close>, which gym accepts, the strategy of the script
  returns \<open>-1\<close>, below the lower bound.
\<close>

theorem get_action_out_of_bounds_counterexample:
  "OUStrategy_init unit_env (PyInt 0) (PyFloat (Fin f015)) (PyFloat (Fin huge)) = Inr wild_ou
   \<and> f64_valid (Fin f015) \<and> f64_valid (Fin huge) \<and> f64_valid (Fin f09)
   \<and> fst (get_action (0::nat) () base_policy wild_ou two_draws) = Inr [Fin 1]
   \<and> state (fst (snd (get_action (0::nat) () base_policy wild_ou two_draws))) = [PInf]
   \<and> fst (get_action (1::nat) () base_policy
            (fst (snd (get_action (0::nat) () base_policy wild_ou two_draws)))
            (snd (snd (get_action (0::nat) () base_policy wild_ou two_draws))))
        = Inr [NaN]
   \<and> \<not> f64_le (Fin (- 1)) NaN \<and> \<not> f64_le NaN (Fin 1)
   \<and> fst (get_action (0::nat) () base_policy
            (script_ou\<lparr>action_space := Box inverted_box\<rparr>) zero_draws)
        = Inr [Fin (- 1)]
   \<and> \<not> f64_le (Fin 1) (Fin (- 1))"
proof -
  have c: "OUStrategy_init unit_env (PyInt 0) (PyFloat (Fin f015)) (PyFloat (Fin huge))
             = Inr wild_ou"
    by (simp add: OUStrategy_init_def unit_env_def unit_box_def flat_dim_def np_mul_scalar_def
        np_ones_def as_float64_def f64_of_rat_zero reset_def wild_ou_def)
  have v: "f64_valid (Fin f015)" "f64_valid (Fin f09)" by code_simp+
  have i: "fst (get_action (0::nat) () base_policy
                  (script_ou\<lparr>action_space := Box inverted_box\<rparr>) zero_draws)
             = Inr [Fin (- 1)]"
    by code_simp
  show ?thesis
    using c v f64_valid_huge wild_two_calls i by (simp add: wild_first_call)
qed

text \<open>
  C4, as amended. Let \<open>mu\<close>, \<open>theta\<close> and \<open>sigma\<close> convert to the float64 \<open>m\<close>, \<open>th\<close>
  and \<open>sg\<close>. One call of \<open>evolve_state\<close> takes one draw \<open>N\<close> per component \<open>x\<close> of
  the state, sets the component to \<open>x + (th * (m - x) + sg * N)\<close> computed in float64,
  each operation rounded, leaves the other fields alone and returns the new state. With
  \<open>theta = 1\<close> and \<open>sigma = 0\<close> the new component is the float64 sum of \<open>x\<close> and the
  float64 difference \<open>m - x\<close>; it is \<open>m\<close> itself where \<open>m\<close> and \<open>x\<close> are finite and
  the difference \<open>m - x\<close> is a float64 without rounding; so a state that is a finite
  \<open>m\<close> in every component stays as it is.
\<close>

theorem evolve_state_float64:
  assumes "as_float64 (mu self) = Inr m" and "as_float64 (theta self) = Inr th"
    and "as_float64 (sigma self) = Inr sg"
  shows "evolve_state self g =
     (Inr (map2 (ou_next m th sg) (state self) (fst (randn (length (state self)) g))),
      self\<lparr>state := map2 (ou_next m th sg) (state self)
                       (fst (randn (length (state self)) g))\<rparr>,
      snd (randn (length (state self)) g))
   \<and> length (fst (randn (length (state self)) g)) = length (state self)
   \<and> (th = Fin 1 \<and> sg = Fin 0 \<longrightarrow>
        state (fst (snd (evolve_state self g)))
          = map (\<lambda>x. f64_add x (f64_sub m x)) (state self))
   \<and> (th = Fin 1 \<and> sg = Fin 0 \<and> f64_valid m
        \<and> (\<forall>x\<in>set (state self). exact_diff m x) \<longrightarrow>
        state (fst (snd (evolve_state self g))) = replicate (length (state self)) m)
   \<and> (th = Fin 1 \<and> sg = Fin 0 \<and> f64_valid m \<and> m = Fin a
        \<and> state self = replicate (length (state self)) m \<longrightarrow>
        state (fst (snd (evolve_state self g))) = state self)"
proof (intro conjI impI)
  show e: "evolve_state self g =
     (Inr (map2 (ou_next m th sg) (state self) (fst (randn (length (state self)) g))),
      self\<lparr>state := map2 (ou_next m th sg) (state self)
                       (fst (randn (length (state self)) g))\<rparr>,
      snd (randn (length (state self)) g))"
    using assms by (rule evolve_state_eq)
  show l: "length (fst (randn (length (state self)) g)) = length (state self)"
    by (rule length_randn)
  {
    assume a: "th = Fin 1 \<and> sg = Fin 0"
    then have "ou_next m th sg = (\<lambda>x n. f64_add x (f64_sub m x))"
      by (intro ext) (simp add: ou_next_full_reversion)
    then show "state (fst (snd (evolve_state self g)))
          = map (\<lambda>x. f64_add x (f64_sub m x)) (state self)"
      using l by (simp add: e map2_ignore_right)
  }
  note r = this
  {
    assume a: "th = Fin 1 \<and> sg = Fin 0 \<and> f64_valid m
        \<and> (\<forall>x\<in>set (state self). exact_diff m x)"
    then have "map (\<lambda>x. f64_add x (f64_sub m x)) (state self)
                 = map (\<lambda>x. m) (state self)"
      by (intro map_cong) (simp_all add: f64_add_sub_exact)
    then show "state (fst (snd (evolve_state self g))) = replicate (length (state self)) m"
      using r a by (simp add: map_replicate_const)
  }
  note x = this
  {
    assume a: "th = Fin 1 \<and> sg = Fin 0 \<and> f64_valid m \<and> m = Fin a
        \<and> state self = replicate (length (state self)) m"
    then have "set (state self) \<subseteq> {m}"
      by (metis set_replicate_conv_if empty_subsetI subset_refl)
    moreover from a have vm: "f64_valid m" and ma: "m = Fin a" by blast+
    from vm have "exact_diff m m" unfolding ma by (rule exact_diff_self)
    ultimately have "\<forall>x\<in>set (state self). exact_diff m x" by auto
    with a have "th = Fin 1 \<and> sg = Fin 0 \<and> f64_valid m
        \<and> (\<forall>x\<in>set (state self). exact_diff m x)"
      by blast
    then have s: "state (fst (snd (evolve_state self g))) = replicate (length (state self)) m"
      by (rule x)
    from a have "state self = replicate (length (state self)) m" by blast
    then have "replicate (length (state self)) m = state self" by (rule sym)
    with s show "state (fst (snd (evolve_state self g))) = state self" by (rule trans)
  }
qed

theorem evolve_state_float64_witness:
  "as_float64 (mu (reverting_ou [Fin tenth, Fin 0])) = Inr (Fin tenth)
   \<and> as_float64 (theta (reverting_ou [Fin tenth, Fin 0])) = Inr (Fin 1)
   \<and> as_float64 (sigma (reverting_ou [Fin tenth, Fin 0])) = Inr (Fin 0)
   \<and> f64_valid (Fin tenth)
   \<and> exact_diff (Fin tenth) (Fin tenth) \<and> exact_diff (Fin tenth) (Fin 0)
   \<and> state (fst (snd (evolve_state (reverting_ou [Fin tenth, Fin 0]) five_draws)))
        = [Fin tenth, Fin tenth]
   \<and> state (fst (snd (evolve_state (reverting_ou [Fin tenth, Fin tenth]) five_draws)))
        = [Fin tenth, Fin tenth]"
proof -
  let ?self = "reverting_ou [Fin tenth, Fin 0]"
  let ?same = "reverting_ou [Fin tenth, Fin tenth]"
  have h1: "as_float64 (mu (reverting_ou xs)) = Inr (Fin tenth)" for xs
    by (simp add: reverting_ou_def as_float64_def)
  have h2: "as_float64 (theta (reverting_ou xs)) = Inr (Fin 1)" for xs
    by (simp add: reverting_ou_def as_float64_def f64_of_rat_def round_f64_def
        round_half_even_def ilog2_def Let_def)
  have h3: "as_float64 (sigma (reverting_ou xs)) = Inr (Fin 0)" for xs
    by (simp add: reverting_ou_def as_float64_zero)
  have v: "f64_valid (Fin tenth)" by code_simp
  have d1: "exact_diff (Fin tenth) (Fin tenth)" by code_simp
  have d2: "exact_diff (Fin tenth) (Fin 0)" by code_simp
  have h: "Fin 1 = Fin 1 \<and> Fin 0 = Fin 0 \<and> f64_valid (Fin tenth)
     \<and> (\<forall>x\<in>set (state ?self). exact_diff (Fin tenth) x)"
    using v d1 d2 by (simp add: reverting_ou_def)
  note t = evolve_state_float64 [where self = ?self and g = five_draws, OF h1 h2 h3]
  from t [THEN conjunct2, THEN conjunct2, THEN conjunct2, THEN conjunct1] h
  have "state (fst (snd (evolve_state ?self five_draws)))
          = replicate (length (state ?self)) (Fin tenth)"
    by (rule mp)
  then have a: "state (fst (snd (evolve_state ?self five_draws))) = [Fin tenth, Fin tenth]"
    by (simp add: reverting_ou_def)
  have k: "Fin 1 = Fin 1 \<and> Fin 0 = Fin 0 \<and> f64_valid (Fin tenth) \<and> Fin tenth = Fin tenth
     \<and> state ?same = replicate (length (state ?same)) (Fin tenth)"
    using v by (simp add: reverting_ou_def)
  note u = evolve_state_float64
    [where self = ?same and g = five_draws and a = tenth, OF h1 h2 h3]
  from u [THEN conjunct2, THEN conjunct2, THEN conjunct2, THEN conjunct2] k
  have "state (fst (snd (evolve_state ?same five_draws))) = state ?same"
    by (rule mp)
  then have b: "state (fst (snd (evolve_state ?same five_draws))) = [Fin tenth, Fin tenth]"
    by (simp add: reverting_ou_def)
  from a b h1 h2 h3 v d1 d2 show ?thesis by simp
qed

text \<open>
  The claim as the spec states it fails: with \<open>theta = 1\<close>, \<open>sigma = 0\<close> and \<open>mu\<close> the
  float \<open>0.1\<close>, one call from the state \<open>1.0\<close> ends in \<open>0.09999999999999998\<close>, the
  float next below \<open>mu\<close>, as \<open>1.0 + (0.1 - 1.0)\<close> does in Python.
\<close>

theorem evolve_state_full_reversion_counterexample:
  "mu (reverting_ou [Fin 1]) = PyFloat (Fin tenth) \<and> f64_valid (Fin tenth)
   \<and> theta (reverting_ou [Fin 1]) = PyInt 1 \<and> sigma (reverting_ou [Fin 1]) = PyInt 0
   \<and> fst (evolve_state (reverting_ou [Fin 1]) zero_draws)
        = Inr [Fin (900719925474099 / 9007199254740992)]
   \<and> state (fst (snd (evolve_state (reverting_ou [Fin 1]) zero_draws)))
        = [Fin (900719925474099 / 9007199254740992)]
   \<and> Fin (900719925474099 / 9007199254740992) \<noteq> Fin tenth"
  by code_simp

text \<open>
  C5, as amended. The constructor raises its assertion error exactly when the action
  space is not a box of rank one; the bounds of the box may be infinite. On a box of
  rank one it raises \<open>OverflowError\<close> when \<open>mu\<close> is an \<open>int\<close> beyond the range of
  float64. Otherwise it returns a strategy that holds the three parameters and the
  space and whose state is, in every one of the dimensions of the action space, \<open>mu\<close>
  converted to float64: the number \<open>mu\<close> itself exactly when \<open>mu\<close> is a \<open>float\<close> or
  an \<open>int\<close> that float64 represents.
\<close>

theorem OUStrategy_init_spec:
  "(\<not> is_rank1_box (env_action_space env) \<longrightarrow>
      OUStrategy_init env m th sg = Inl AssertionError)
   \<and> (is_rank1_box (env_action_space env) \<longrightarrow>
        OUStrategy_init env m th sg \<noteq> Inl AssertionError)
   \<and> (is_rank1_box (env_action_space env) \<and> as_float64 m = Inl OverflowError \<longrightarrow>
        OUStrategy_init env m th sg = Inl OverflowError)
   \<and> (is_rank1_box (env_action_space env) \<and> pynum_valid m \<and> as_float64 m = Inr v \<longrightarrow>
        OUStrategy_init env m th sg
          = Inr \<lparr>mu = m, theta = th, sigma = sg, action_space = env_action_space env,
                 state = replicate (flat_dim (env_action_space env)) v\<rparr>
        \<and> (num_eq v m \<longleftrightarrow> num_exact m))"
proof (intro conjI impI)
  assume "\<not> is_rank1_box (env_action_space env)"
  then show "OUStrategy_init env m th sg = Inl AssertionError"
    by (rule OUStrategy_init_not_Box)
next
  assume "is_rank1_box (env_action_space env)"
  then obtain b where b: "env_action_space env = Box b" "length (shape b) = 1"
    by (auto simp add: is_rank1_box_def split: space.splits)
  show "OUStrategy_init env m th sg \<noteq> Inl AssertionError"
  proof (cases "as_float64 m")
    case (Inl e)
    then have "e = OverflowError" by (rule as_float64_error)
    with Inl b show ?thesis by (simp add: OUStrategy_init_overflow)
  next
    case (Inr w)
    with b show ?thesis
      by (auto simp add: OUStrategy_init_def np_mul_scalar_def reset_def
          split: sum.splits prod.splits)
  qed
next
  assume "is_rank1_box (env_action_space env) \<and> as_float64 m = Inl OverflowError"
  then obtain b where "env_action_space env = Box b" "length (shape b) = 1"
    "as_float64 m = Inl OverflowError"
    by (auto simp add: is_rank1_box_def split: space.splits)
  then show "OUStrategy_init env m th sg = Inl OverflowError"
    by (rule OUStrategy_init_overflow)
next
  assume a: "is_rank1_box (env_action_space env) \<and> pynum_valid m \<and> as_float64 m = Inr v"
  then obtain b where b: "env_action_space env = Box b" "length (shape b) = 1"
    by (auto simp add: is_rank1_box_def split: space.splits)
  from a have "f64_valid v" by (auto intro: as_float64_valid)
  with a b show "OUStrategy_init env m th sg
          = Inr \<lparr>mu = m, theta = th, sigma = sg, action_space = env_action_space env,
                 state = replicate (flat_dim (env_action_space env)) v\<rparr>"
    by (simp add: OUStrategy_init_Box)
next
  assume "is_rank1_box (env_action_space env) \<and> pynum_valid m \<and> as_float64 m = Inr v"
  then show "num_eq v m \<longleftrightarrow> num_exact m" by (simp add: as_float64_num_eq)
qed

theorem OUStrategy_init_spec_witness:
  "\<not> is_rank1_box (Discrete 3) \<and> is_rank1_box (Box unit_box)
   \<and> OUStrategy_init \<lparr>env_observation_space = Box unit_box, env_action_space = Discrete 3\<rparr>
        (PyInt 0) (PyFloat (Fin f015)) (PyFloat (Fin f03))
      = Inl AssertionError
   \<and> as_float64 (PyInt beyond) = Inl OverflowError
   \<and> OUStrategy_init unit_env (PyInt beyond) (PyFloat (Fin f015)) (PyFloat (Fin f03))
      = Inl OverflowError
   \<and> pynum_valid (PyInt 0) \<and> as_float64 (PyInt 0) = Inr (Fin 0)
   \<and> OUStrategy_init unit_env (PyInt 0) (PyFloat (Fin f015)) (PyFloat (Fin f03))
      = Inr script_ou
   \<and> num_exact (PyInt 0) \<and> num_eq (Fin 0) (PyInt 0)"
proof -
  let ?th = "PyFloat (Fin f015)"
  let ?sg = "PyFloat (Fin f03)"
  let ?d = "\<lparr>env_observation_space = Box unit_box, env_action_space = Discrete 3\<rparr>"
  have h1: "\<not> is_rank1_box (env_action_space ?d)" by (simp add: is_rank1_box_def)
  have h2: "is_rank1_box (env_action_space unit_env)"
    by (simp add: is_rank1_box_def unit_env_def unit_box_def)
  have h3: "pynum_valid (PyInt 0)" by (simp add: pynum_valid_def)
  have h4: "as_float64 (PyInt 0) = Inr (Fin 0)" by (rule as_float64_zero)
  have h5: "num_exact (PyInt 0)" by (simp add: num_exact_def f64_of_rat_zero)
  have a: "OUStrategy_init ?d (PyInt 0) ?th ?sg = Inl AssertionError"
    using OUStrategy_init_spec [of ?d "PyInt 0" ?th ?sg] h1 by blast
  have o: "OUStrategy_init unit_env (PyInt beyond) ?th ?sg = Inl OverflowError"
    using OUStrategy_init_spec [of unit_env "PyInt beyond" ?th ?sg] h2 as_float64_beyond
    by blast
  from OUStrategy_init_spec [of unit_env "PyInt 0" ?th ?sg "Fin 0"] h2 h3 h4
  have s: "OUStrategy_init unit_env (PyInt 0) ?th ?sg
          = Inr \<lparr>mu = PyInt 0, theta = ?th, sigma = ?sg,
                 action_space = env_action_space unit_env,
                 state = replicate (flat_dim (env_action_space unit_env)) (Fin 0)\<rparr>"
    and e: "num_eq (Fin 0) (PyInt 0) \<longleftrightarrow> num_exact (PyInt 0)"
    by blast+
  from s have "OUStrategy_init unit_env (PyInt 0) ?th ?sg = Inr script_ou"
    by (simp add: script_ou_def unit_env_def flat_dim_def unit_box_def)
  with a o e h1 h2 h3 h4 h5 as_float64_beyond show ?thesis
    by (simp add: unit_env_def)
qed

text \<open>
  The claim as the spec states it fails: with \<open>mu = 2 ** 53 + 1\<close>, an \<open>int\<close> that the
  constructor accepts, the state of the new strategy is \<open>2 ** 53\<close>, not \<open>mu\<close>. And a
  box without finite bounds is accepted as well.
\<close>

theorem OUStrategy_init_state_counterexample:
  "is_rank1_box (env_action_space unit_env)
   \<and> OUStrategy_init unit_env (PyInt (2 ^ 53 + 1)) (PyFloat (Fin f015)) (PyFloat (Fin f03))
      = Inr (script_ou\<lparr>mu := PyInt (2 ^ 53 + 1), state := [Fin (2 ^ 53)]\<rparr>)
   \<and> \<not> num_eq (Fin (2 ^ 53)) (PyInt (2 ^ 53 + 1))
   \<and> OUStrategy_init
        \<lparr>env_observation_space = Box unit_box, env_action_space = Box unbounded_box\<rparr>
        (PyInt 0) (PyFloat (Fin f015)) (PyFloat (Fin f03))
      = Inr (script_ou\<lparr>action_space := Box unbounded_box\<rparr>)"
  by code_simp

text \<open>
  C6, as amended. Whatever the state was, \<open>reset\<close> leaves the strategy with the state
  \<open>mu\<close> converted to float64 in every one of the dimensions of the action space, which
  is the number \<open>mu\<close> itself exactly when \<open>mu\<close> is a \<open>float\<close> or an \<open>int\<close> that
  float64 represents, and with every other field as it was, and returns nothing; when
  \<open>mu\<close> is an \<open>int\<close> beyond the range of float64 it raises \<open>OverflowError\<close> and the
  strategy is as it was.
\<close>

theorem reset_state_is_mu:
  "(as_float64 (mu self) = Inl OverflowError \<longrightarrow> reset self = (Inl OverflowError, self))
   \<and> (pynum_valid (mu self) \<and> as_float64 (mu self) = Inr v \<longrightarrow>
        reset self
          = (Inr (), self\<lparr>state := replicate (flat_dim (action_space self)) v\<rparr>)
        \<and> (num_eq v (mu self) \<longleftrightarrow> num_exact (mu self)))"
proof (intro conjI impI)
  assume "as_float64 (mu self) = Inl OverflowError"
  then show "reset self = (Inl OverflowError, self)" by (rule reset_error)
next
  assume a: "pynum_valid (mu self) \<and> as_float64 (mu self) = Inr v"
  then have "f64_valid v" by (auto intro: as_float64_valid)
  with a show "reset self
      = (Inr (), self\<lparr>state := replicate (flat_dim (action_space self)) v\<rparr>)"
    by (simp add: reset_eq)
next
  assume "pynum_valid (mu self) \<and> as_float64 (mu self) = Inr v"
  then show "num_eq v (mu self) \<longleftrightarrow> num_exact (mu self)" by (simp add: as_float64_num_eq)
qed

theorem reset_state_is_mu_witness:
  "as_float64 (mu (script_ou\<lparr>mu := PyInt beyond\<rparr>)) = Inl OverflowError
   \<and> reset (script_ou\<lparr>mu := PyInt beyond\<rparr>)
        = (Inl OverflowError, script_ou\<lparr>mu := PyInt beyond\<rparr>)
   \<and> pynum_valid (mu (script_ou\<lparr>state := [Fin 5]\<rparr>))
   \<and> as_float64 (mu (script_ou\<lparr>state := [Fin 5]\<rparr>)) = Inr (Fin 0)
   \<and> reset (script_ou\<lparr>state := [Fin 5]\<rparr>) = (Inr (), script_ou)
   \<and> num_exact (PyInt 0) \<and> num_eq (Fin 0) (PyInt 0)"
proof -
  let ?o = "script_ou\<lparr>mu := PyInt beyond\<rparr>"
  let ?s = "script_ou\<lparr>state := [Fin 5]\<rparr>"
  have h1: "as_float64 (mu ?o) = Inl OverflowError" by (simp add: as_float64_beyond)
  have h2: "pynum_valid (mu ?s)" by (simp add: script_ou_def pynum_valid_def)
  have h3: "as_float64 (mu ?s) = Inr (Fin 0)" by (simp add: script_ou_def as_float64_zero)
  have h4: "num_exact (PyInt 0)" by (simp add: num_exact_def f64_of_rat_zero)
  have m: "mu ?s = PyInt 0" by (simp add: script_ou_def)
  have o: "reset ?o = (Inl OverflowError, ?o)"
    using reset_state_is_mu [of ?o] h1 by blast
  from reset_state_is_mu [of ?s "Fin 0"] h2 h3
  have r: "reset ?s = (Inr (), ?s\<lparr>state := replicate (flat_dim (action_space ?s)) (Fin 0)\<rparr>)"
    and e: "num_eq (Fin 0) (mu ?s) \<longleftrightarrow> num_exact (mu ?s)"
    by blast+
  from r have "reset ?s = (Inr (), script_ou)"
    by (simp add: script_ou_def flat_dim_def unit_box_def)
  with o e h1 h2 h3 h4 m show ?thesis by simp
qed

text \<open>
  The claim as the spec states it fails: with \<open>mu = 2 ** 53 + 1\<close> the state after
  \<open>reset\<close> is \<open>2 ** 53\<close>, the float64 nearest to \<open>mu\<close>, not \<open>mu\<close>.
\<close>

theorem reset_state_counterexample:
  "reset (script_ou\<lparr>mu := PyInt (2 ^ 53 + 1), state := [Fin 5]\<rparr>)
     = (Inr (), script_ou\<lparr>mu := PyInt (2 ^ 53 + 1), state := [Fin (2 ^ 53)]\<rparr>)
   \<and> \<not> num_eq (Fin (2 ^ 53)) (PyInt (2 ^ 53 + 1))"
  by code_simp

text \<open>
  C8. The timestep does not enter the result of \<open>get_action\<close>: from the same
  observation, base policy, strategy and random source, any two timesteps give the
  same action, the same strategy afterwards and the same random source afterwards.
\<close>

theorem get_action_ignores_t:
  "get_action t1 observation pol self g = get_action t2 observation pol self g"
  by (simp add: get_action_def)

text \<open>
  C9. The state has the flat dimension of the action space in every strategy the
  constructor returns, after every \<open>reset\<close> that returns, and after every \<open>reset\<close>,
  \<open>evolve_state\<close> and \<open>get_action\<close> on a strategy where it had it, whether the call
  returns or raises.
\<close>

theorem state_length_invariant:
  "(OUStrategy_init env m th sg = Inr self0 \<longrightarrow> ou_inv self0)
   \<and> (fst (reset self) = Inr () \<longrightarrow> ou_inv (snd (reset self)))
   \<and> (ou_inv self \<longrightarrow> ou_inv (snd (reset self)))
   \<and> (ou_inv self \<longrightarrow> ou_inv (fst (snd (evolve_state self g))))
   \<and> (ou_inv self \<longrightarrow> ou_inv (fst (snd (get_action t observation pol self g))))"
proof (intro conjI impI)
  assume "OUStrategy_init env m th sg = Inr self0"
  then show "ou_inv self0" by (rule OUStrategy_init_inv)
next
  assume "fst (reset self) = Inr ()"
  then show "ou_inv (snd (reset self))"
    by (simp add: ou_inv_def reset_length reset_action_space)
next
  assume i: "ou_inv self"
  show "ou_inv (snd (reset self))"
  proof (cases "fst (reset self) = Inr ()")
    case True
    then show ?thesis by (simp add: ou_inv_def reset_length reset_action_space)
  next
    case False
    then show ?thesis using i by (simp add: reset_state_on_error)
  qed
next
  assume "ou_inv self"
  then show "ou_inv (fst (snd (evolve_state self g)))"
    by (simp add: ou_inv_def evolve_state_length evolve_state_action_space)
next
  assume i: "ou_inv self"
  then have "ou_inv (fst (snd (evolve_state self g)))"
    by (simp add: ou_inv_def evolve_state_length evolve_state_action_space)
  with i get_action_strategy [of t observation pol self g]
  show "ou_inv (fst (snd (get_action t observation pol self g)))" by auto
qed

theorem state_length_invariant_witness:
  "OUStrategy_init unit_env (PyInt 0) (PyFloat (Fin f015)) (PyFloat (Fin f03)) = Inr script_ou
   \<and> ou_inv script_ou
   \<and> fst (reset script_ou) = Inr ()
   \<and> ou_inv (snd (reset script_ou))
   \<and> ou_inv (fst (snd (evolve_state script_ou five_draws)))
   \<and> ou_inv (fst (snd (get_action (0::nat) () base_policy script_ou five_draws)))"
proof -
  let ?th = "PyFloat (Fin f015)"
  let ?sg = "PyFloat (Fin f03)"
  have c: "OUStrategy_init unit_env (PyInt 0) ?th ?sg = Inr script_ou"
    by (simp add: OUStrategy_init_def unit_env_def unit_box_def flat_dim_def np_mul_scalar_def
        np_ones_def as_float64_def f64_of_rat_zero reset_def script_ou_def)
  have r: "fst (reset script_ou) = Inr ()"
    by (simp add: reset_def np_mul_scalar_def script_ou_def as_float64_zero)
  from state_length_invariant
    [of unit_env "PyInt 0" ?th ?sg script_ou script_ou five_draws "0::nat" "()" base_policy] c r
  show ?thesis by simp
qed

section \<open>The Gaussian MLP policy: theorems\<close>

lemma logpdf_call_one_argument: "logpdf_call self [actions] = Inl TypeError"
  by (simp add: logpdf_call_def)

lemma sample_always_raises: "\<exists>e. fst (sample self obs g) = Inl e"
  by (auto simp add: sample_def logpdf_call_one_argument split: sum.splits prod.splits)

lemma policy_unit:
  "policy unit_policy (T2 [[0, 0]]) = Inr \<lparr>loc = T2 [[0]], scale = T2 [[1]]\<rparr>"
  by (simp add: policy_def unit_policy_def zero_mlp_def nn_Parameter_def
      Normal_init_def broadcast_rows_def broadcast1_def)

text \<open>Called with both arguments, \<open>logpdf\<close> returns the summed log-density of each row.\<close>

lemma logpdf_two_arguments:
  "logpdf_call unit_policy [T2 [[0, 0]], T2 [[0]]] = Inr (T1 [- ln (sqrt (2 * pi))])"
  by (simp add: logpdf_call_def logpdf_def policy_unit log_prob_def broadcast_rows_def
      broadcast1_def)

text \<open>
  C1. \<open>sample\<close> does not return the pair the spec describes. It draws the actions
  and then calls \<open>self.logpdf(actions)\<close>, one argument for the two parameters \<open>obs\<close>
  and \<open>action\<close> of the method, so the call raises \<open>TypeError\<close>: here on a batch of one
  observation, for a policy of one action dimension with mean zero and standard
  deviation one.
\<close>

theorem sample_raises_TypeError:
  "fst (sample unit_policy (T2 [[0, 0]]) zero_draws_real) = Inl TypeError"
  by (simp add: sample_def policy_def unit_policy_def zero_mlp_def nn_Parameter_def
      Normal_init_def broadcast_rows_def broadcast1_def Normal_sample_def randn_def
      zero_draws_real_def logpdf_call_one_argument)

text \<open>
  C2. The constructor never returns a policy. With \<open>adaptive_std\<close> it raises
  \<open>NotImplementedError\<close>, as the spec says; without it the call
  \<open>nn.Module.__init__()\<close>, which passes no \<open>self\<close>, raises \<open>TypeError\<close>.
\<close>

theorem GaussianMLPPolicy_init_raises:
  "GaussianMLPPolicy_init MLP env hidden_sizes learn_std init_std adaptive_std
       hidden_nonlinearity output_nonlinearity
     = Inl (if adaptive_std then NotImplementedError else TypeError)"
  by (simp add: GaussianMLPPolicy_init_def nn_Module_init_def)

text \<open>
  C7. With \<open>learn_std\<close> false and \<open>init_std = 2\<close> the constructor raises \<open>TypeError\<close>
  before it reaches \<open>log_std\<close>; and the statements that would set the fields make
  \<open>log_std\<close> the logarithm of \<open>init_std\<close> in every action dimension but ask for its
  gradient all the same, since \<open>learn_std\<close> is never read.
\<close>

theorem log_std_ignores_learn_std:
  "GaussianMLPPolicy_init zero_mlp unit_env [32, 32] False 2 False () () = Inl TypeError
   \<and> (\<exists>p. init_fields zero_mlp unit_env [32, 32] False 2 () () = Inr p
          \<and> data (log_std p) = [ln 2] \<and> requires_grad (log_std p))"
  by (simp add: GaussianMLPPolicy_init_def nn_Module_init_def init_fields_def math_log_def
      nn_Parameter_def torch_ones_def unit_env_def unit_box_def flat_dim_def)

lemma forward_eq_sample: "forward self obs g = sample self obs g"
  by (simp add: forward_def)

lemma Module_call_always_raises: "\<exists>e. fst (Module_call self obs g) = Inl e"
  using sample_always_raises [of self obs g] by (simp add: Module_call_def forward_def)

text \<open>
  C10. Calling the policy runs \<open>forward\<close>, and \<open>forward\<close> runs \<open>sample\<close>, so the
  three give the same result from the same observation and random source; but the
  result is never the pair of an action and its log-density that the spec describes:
  as \<open>sample\<close> does, the call raises \<open>TypeError\<close>, here on a batch of one observation.
\<close>

theorem Module_call_raises_TypeError:
  "fst (Module_call unit_policy (T2 [[0, 0]]) zero_draws_real) = Inl TypeError
   \<and> fst (forward unit_policy (T2 [[0, 0]]) zero_draws_real) = Inl TypeError
   \<and> Module_call unit_policy (T2 [[0, 0]]) zero_draws_real
        = sample unit_policy (T2 [[0, 0]]) zero_draws_real"
  by (simp add: Module_call_def forward_def sample_def policy_def unit_policy_def zero_mlp_def
      nn_Parameter_def Normal_init_def broadcast_rows_def broadcast1_def Normal_sample_def
      randn_def zero_draws_real_def logpdf_call_one_argument)

end
